theory Spec2Isabelle
  imports Complex_Main "HOL-Library.Sublist"
begin

section \<open>Wine API data processor: a shallow embedding of \<open>wine_api_processor.py\<close>\<close>

text \<open>
  The script reads rows from a CSV file, issues one HTTP GET per row, records the
  outcome of each row and finally writes a results table next to the input.

  Everything the script obtains from outside (the parsed file, the HTTP responses, the
  pseudo-random numbers, the clock, the file system and the operator's keyboard) is
  collected in a record \<open>world\<close>; every effect it has (log lines, sleeps, files
  written) is collected in a record \<open>run_state\<close>. Python strings are byte lists in
  UTF-8, so white space, digits and capital letters are the ASCII ones;
  a float is the rational number it denotes, and the rounding of float
  addition is not part of the model. Exceptions are values of type \<open>exn\<close>; the type
  lists subclasses of \<open>Exception\<close> only, so interrupts are outside the model.
\<close>

subsection \<open>Values and exceptions\<close>

datatype exn =
    FileNotFoundError string
  | RequestException string
  | ValueError string
  | TypeError string
  | EOFError string
  | OSError string
  | OtherException string

fun str_exn :: "exn \<Rightarrow> string" where
  "str_exn (FileNotFoundError m) = m"
| "str_exn (RequestException m) = m"
| "str_exn (ValueError m) = m"
| "str_exn (TypeError m) = m"
| "str_exn (EOFError m) = m"
| "str_exn (OSError m) = m"
| "str_exn (OtherException m) = m"

text \<open>
  A field of a row read by \<open>csv.DictReader\<close> is a string, or \<open>None\<close> when the line
  is shorter than the header.
\<close>

datatype cell = Str string | NoneVal

type_synonym row = "string \<rightharpoonup> cell"

subsection \<open>String functions of the Python library\<close>

definition digit_char :: "nat \<Rightarrow> char" where
  "digit_char d = char_of (48 + d)"

fun str_nat :: "nat \<Rightarrow> string" where
  "str_nat n = (if n < 10 then [digit_char n] else str_nat (n div 10) @ [digit_char (n mod 10)])"

declare str_nat.simps [simp del]

definition str_int :: "int \<Rightarrow> string" where
  "str_int i = (if i < 0 then CHR ''-'' # str_nat (nat (- i)) else str_nat (nat i))"

definition is_digit :: "char \<Rightarrow> bool" where
  "is_digit c = (48 \<le> (of_char c :: nat) \<and> (of_char c :: nat) \<le> 57)"

definition digit_val :: "char \<Rightarrow> nat" where
  "digit_val c = of_char c - 48"

definition py_isspace :: "char \<Rightarrow> bool" where
  "py_isspace c = (let n = (of_char c :: nat) in (9 \<le> n \<and> n \<le> 13) \<or> (28 \<le> n \<and> n \<le> 32))"

definition py_strip :: "string \<Rightarrow> string" where
  "py_strip s = rev (dropWhile py_isspace (rev (dropWhile py_isspace s)))"

definition lower_char :: "char \<Rightarrow> char" where
  "lower_char c = (let n = (of_char c :: nat) in if 65 \<le> n \<and> n \<le> 90 then char_of (n + 32) else c)"

definition py_lower :: "string \<Rightarrow> string" where
  "py_lower s = map lower_char s"

text \<open>\<open>s.rstrip('/')\<close>, used by the constructor on the base URL.\<close>

definition rstrip_slash :: "string \<Rightarrow> string" where
  "rstrip_slash s = rev (dropWhile (\<lambda>c. c = CHR ''/'') (rev s))"

text \<open>
  \<open>s.replace(old, new)\<close>: the occurrences of \<open>old\<close> are found from left to right and
  do not overlap; with an empty \<open>old\<close>, \<open>new\<close> is inserted around every character.
\<close>

function py_replace :: "string \<Rightarrow> string \<Rightarrow> string \<Rightarrow> string" where
  "py_replace old new [] = (if old = [] then new else [])"
| "py_replace old new (c # s) =
     (if old = [] then new @ c # py_replace old new s
      else if prefix old (c # s) then new @ py_replace old new (drop (length old) (c # s))
      else c # py_replace old new s)"
  by pat_completeness auto
termination
  by (relation "measure (\<lambda>(old, new, s). length s)") auto

text \<open>
  \<open>urllib.parse.quote_plus\<close> with its default arguments: letters, digits and
  \<open>_.-~\<close> stay, a space becomes \<open>+\<close>, every other byte becomes \<open>%XX\<close>.
\<close>

definition hex_char :: "nat \<Rightarrow> char" where
  "hex_char d = (if d < 10 then char_of (48 + d) else char_of (55 + d))"

definition always_safe :: "char \<Rightarrow> bool" where
  "always_safe c =
     (let n = (of_char c :: nat)
      in (65 \<le> n \<and> n \<le> 90) \<or> (97 \<le> n \<and> n \<le> 122) \<or> (48 \<le> n \<and> n \<le> 57) \<or> c \<in> set ''_.-~'')"

definition quote_char :: "char \<Rightarrow> string" where
  "quote_char c =
     (if always_safe c then [c]
      else if c = CHR '' '' then ''+''
      else [CHR ''%'', hex_char ((of_char c :: nat) div 16), hex_char ((of_char c :: nat) mod 16)])"

definition quote_plus :: "cell \<Rightarrow> exn + string" where
  "quote_plus v =
     (case v of
        NoneVal \<Rightarrow> Inl (TypeError ''quote_from_bytes() expected bytes'')
      | Str s \<Rightarrow> Inr (concat (map quote_char s)))"

text \<open>
  \<open>int(v)\<close>: \<open>None\<close> raises TypeError; a string is stripped of white space, may carry
  one sign, and consists of decimal digits, where single underscores may separate
  digits. Anything else raises ValueError. These are the only two exceptions \<open>int\<close>
  raises on such an argument.
\<close>

fun digits_value :: "nat \<Rightarrow> string \<Rightarrow> nat option" where
  "digits_value acc [] = Some acc"
| "digits_value acc (c # cs) =
     (if is_digit c then digits_value (acc * 10 + digit_val c) cs
      else if c = CHR ''_'' \<and> cs \<noteq> [] \<and> is_digit (hd cs) then digits_value acc cs
      else None)"

definition parse_decimal :: "string \<Rightarrow> nat option" where
  "parse_decimal s = (case s of [] \<Rightarrow> None | c # cs \<Rightarrow> if is_digit c then digits_value 0 s else None)"

definition parse_signed :: "string \<Rightarrow> int option" where
  "parse_signed s =
     (case s of
        [] \<Rightarrow> None
      | c # cs \<Rightarrow>
          if c = CHR ''-'' then map_option (\<lambda>n. - int n) (parse_decimal cs)
          else if c = CHR ''+'' then map_option int (parse_decimal cs)
          else map_option int (parse_decimal s))"

datatype int_error = Int_TypeError | Int_ValueError

definition py_int :: "cell \<Rightarrow> int_error + int" where
  "py_int v =
     (case v of
        NoneVal \<Rightarrow> Inl Int_TypeError
      | Str s \<Rightarrow>
          (case parse_signed (py_strip s) of
             None \<Rightarrow> Inl Int_ValueError
           | Some i \<Rightarrow> Inr i))"

text \<open>
  \<open>f"{x:.2f}"\<close>: the value is rounded to the nearest hundredth, ties to even, and
  printed with a sign when negative, the integer part, a point and two digits.
\<close>

definition round_half_even :: "rat \<Rightarrow> int" where
  "round_half_even x =
     (let f = \<lfloor>x\<rfloor>; d = x - of_int f
      in if d < 1 / 2 then f else if 1 / 2 < d then f + 1 else if even f then f else f + 1)"

definition format_2f :: "rat \<Rightarrow> string" where
  "format_2f x =
     (let h = nat \<bar>round_half_even (x * 100)\<bar>
      in (if x < 0 then ''-'' else '''') @ str_nat (h div 100) @ ''.'' @
         [digit_char (h mod 100 div 10), digit_char (h mod 10)])"

text \<open>\<open>random.uniform(a, b)\<close> is \<open>a + (b - a) * random()\<close>, with \<open>random()\<close> in \<open>[0, 1)\<close>.\<close>

definition uniform :: "rat \<Rightarrow> rat \<Rightarrow> rat \<Rightarrow> rat" where
  "uniform a b u = a + (b - a) * u"

subsection \<open>The processor, its environment and its effects\<close>

record processor =
  api_key :: string
  base_url :: string
  rate_limit_delay :: rat
  enable_mock_pricing :: bool

definition init_processor :: "string \<Rightarrow> string \<Rightarrow> rat \<Rightarrow> bool \<Rightarrow> processor" where
  "init_processor key url delay mock =
     \<lparr>api_key = key, base_url = rstrip_slash url, rate_limit_delay = delay,
      enable_mock_pricing = mock\<rparr>"

record response =
  status_code :: int
  text_body :: string

record csv_table =
  fieldnames :: "string list option"
  rows :: "row list"

type_synonym params = "(string \<times> cell) list"

text \<open>
  The environment of one run. \<open>open_csv\<close> is the outcome of opening and parsing the
  input; \<open>session_get\<close> is the outcome of the GET issued for the row with the given
  number; \<open>random_value\<close> gives the value of \<open>random()\<close> drawn for the row with the given
  number, for the price sent with the request (\<open>True\<close>) and for the price stored in
  the result (\<open>False\<close>); \<open>strftime\<close> is the clock read for a row; \<open>input_answer\<close> is
  what \<open>input()\<close> returns or raises; \<open>now_stamp\<close> is
  \<open>datetime.now().strftime("%Y%m%d_%H%M%S")\<close>; \<open>write_csv\<close> tells whether opening
  and writing the output file raises.
\<close>

record world =
  open_csv :: "string \<Rightarrow> exn + csv_table"
  session_get :: "int \<Rightarrow> string \<Rightarrow> params \<Rightarrow> exn + response"
  random_value :: "int \<Rightarrow> bool \<Rightarrow> rat"
  strftime :: "int \<Rightarrow> string"
  path_exists :: "string \<Rightarrow> bool"
  input_answer :: "exn + string"
  now_stamp :: string
  write_csv :: "string \<Rightarrow> string list list \<Rightarrow> exn option"

record stats_rec =
  total_rows :: int
  successful_calls :: int
  failed_calls :: int
  skipped_rows :: int

record result =
  Row :: int
  Wine_Name :: cell
  Vintage :: cell
  Status :: string
  Mock_Price :: string
  Timestamp :: string

text \<open>The calls of \<open>logger.info\<close> and \<open>logger.error\<close>, with the data each one prints.\<close>

datatype log_event =
    Info_column_count nat
  | Info_columns "string list"
  | Info_row_processed int cell cell
  | Error_call_failed int cell cell
  | Error_row int string
  | Error_file_not_found string
  | Error_reading string
  | Error_status int string
  | Error_request string
  | Error_unexpected string
  | Info_written string
  | Error_writing string

record run_state =
  stats :: stats_rec
  results :: "result list"
  sleeps :: "rat list"
  logged :: "log_event list"
  files :: "(string \<times> string list list) list"

definition emit :: "log_event list \<Rightarrow> run_state \<Rightarrow> run_state" where
  "emit es st = st\<lparr>logged := logged st @ es\<rparr>"

subsection \<open>\<open>_generate_mock_price\<close>\<close>

definition base_price :: "int \<Rightarrow> int" where
  "base_price year =
     (if year < 2000 then 25
      else if year < 2010 then 35
      else if year < 2020 then 28
      else 22)"

text \<open>
  The argument \<open>u\<close> is the value \<open>random()\<close> returns if it is called. The variable
  \<open>current_year\<close> of the source is assigned and never read.
\<close>

definition generate_mock_price :: "processor \<Rightarrow> rat \<Rightarrow> cell \<Rightarrow> string" where
  "generate_mock_price p u vintage =
     (if \<not> enable_mock_pricing p then ''N/A''
      else
        (case py_int vintage of
           Inr year \<Rightarrow>
             (let variation = uniform (- 5) 8 u;
                  final_price = of_int (base_price year) + variation
              in CHR ''$'' # format_2f final_price)
         | Inl Int_ValueError \<Rightarrow> ''$32.99''
         | Inl Int_TypeError \<Rightarrow> ''$32.99''))"

subsection \<open>\<open>_make_api_call\<close>\<close>

definition bom_wine_name :: string where
  "bom_wine_name = [char_of (239::nat), char_of (187::nat), char_of (191::nat)] @ ''Wine Name''"

definition field_mapping :: "(string \<times> string) list" where
  "field_mapping =
     [(''Wine Name'', ''winename''), (bom_wine_name, ''winename''), (''Vintage'', ''vintage'')]"

fun map_fields :: "(string \<times> string) list \<Rightarrow> row \<Rightarrow> (string \<rightharpoonup> cell) \<Rightarrow> (string \<rightharpoonup> cell)" where
  "map_fields [] r m = m"
| "map_fields ((csv_field, api_field) # fm) r m =
     map_fields fm r (case r csv_field of Some v \<Rightarrow> m(api_field \<mapsto> v) | None \<Rightarrow> m)"

definition get_default :: "(string \<rightharpoonup> cell) \<Rightarrow> string \<Rightarrow> cell \<Rightarrow> cell" where
  "get_default m k d = (case m k of Some v \<Rightarrow> v | None \<Rightarrow> d)"

definition build_params :: "processor \<Rightarrow> world \<Rightarrow> int \<Rightarrow> row \<Rightarrow> exn + params" where
  "build_params p w row_num r =
     (let mapped_row = map_fields field_mapping r Map.empty
      in case quote_plus (get_default mapped_row ''winename'' (Str [])) of
           Inl e \<Rightarrow> Inl e
         | Inr name \<Rightarrow>
             Inr ([(''api_key'', Str (api_key p)),
                   (''winename'', Str name),
                   (''vintage'', get_default mapped_row ''vintage'' (Str [])),
                   (''currencycode'', Str ''USD''),
                   (''location'', Str ''MA''),
                   (''state'', Str ''MA''),
                   (''offer_type'', Str ''sale'')]
                  @ (if enable_mock_pricing p
                     then [(''price'', Str (generate_mock_price p (random_value w row_num True)
                                              (get_default mapped_row ''vintage'' (Str []))))]
                     else [])
                  @ [(''country'', Str ''USA'')]))"

text \<open>The body of the \<open>try\<close> block: the result, or the exception that leaves it.\<close>

definition api_call_body :: "processor \<Rightarrow> world \<Rightarrow> int \<Rightarrow> row \<Rightarrow> exn + (bool \<times> log_event list)" where
  "api_call_body p w row_num r =
     (case build_params p w row_num r of
        Inl e \<Rightarrow> Inl e
      | Inr ps \<Rightarrow>
          (case session_get w row_num (base_url p) ps of
             Inl e \<Rightarrow> Inl e
           | Inr resp \<Rightarrow>
               if status_code resp = 200 then Inr (True, [])
               else Inr (False, [Error_status (status_code resp) (text_body resp)])))"

text \<open>The two \<open>except\<close> clauses, in the order of the source.\<close>

fun api_call_handlers :: "exn \<Rightarrow> exn + (bool \<times> log_event list)" where
  "api_call_handlers (RequestException m) = Inr (False, [Error_request m])"
| "api_call_handlers e = Inr (False, [Error_unexpected (str_exn e)])"

definition make_api_call :: "processor \<Rightarrow> world \<Rightarrow> int \<Rightarrow> row \<Rightarrow> exn + (bool \<times> log_event list)" where
  "make_api_call p w row_num r =
     (case api_call_body p w row_num r of
        Inr res \<Rightarrow> Inr res
      | Inl e \<Rightarrow> api_call_handlers e)"

subsection \<open>The row loop of \<open>process_csv\<close>\<close>

definition get_wine_name :: "row \<Rightarrow> cell" where
  "get_wine_name r = get_default r ''Wine Name'' (get_default r bom_wine_name (Str ''Unknown''))"

definition get_vintage :: "row \<Rightarrow> cell" where
  "get_vintage r = get_default r ''Vintage'' (Str ''Unknown'')"

text \<open>\<open>time.sleep(d)\<close> raises ValueError for a negative \<open>d\<close>.\<close>

definition py_sleep :: "rat \<Rightarrow> run_state \<Rightarrow> (exn \<times> run_state) + run_state" where
  "py_sleep d st =
     (if d < 0 then Inl (ValueError ''sleep length must be non-negative'', st)
      else Inr (st\<lparr>sleeps := sleeps st @ [d]\<rparr>))"

definition count_success :: "run_state \<Rightarrow> run_state" where
  "count_success st = st\<lparr>stats := (stats st)\<lparr>successful_calls := successful_calls (stats st) + 1\<rparr>\<rparr>"

definition count_failed :: "run_state \<Rightarrow> run_state" where
  "count_failed st = st\<lparr>stats := (stats st)\<lparr>failed_calls := failed_calls (stats st) + 1\<rparr>\<rparr>"

definition count_total :: "run_state \<Rightarrow> run_state" where
  "count_total st = st\<lparr>stats := (stats st)\<lparr>total_rows := total_rows (stats st) + 1\<rparr>\<rparr>"

definition append_result :: "result \<Rightarrow> run_state \<Rightarrow> run_state" where
  "append_result res st = st\<lparr>results := results st @ [res]\<rparr>"

definition make_result :: "processor \<Rightarrow> world \<Rightarrow> int \<Rightarrow> row \<Rightarrow> string \<Rightarrow> result" where
  "make_result p w row_num r status =
     \<lparr>Row = row_num,
      Wine_Name = get_wine_name r,
      Vintage = get_vintage r,
      Status = status,
      Mock_Price = generate_mock_price p (random_value w row_num False) (get_vintage r),
      Timestamp = strftime w row_num\<rparr>"

text \<open>
  The body of the inner \<open>try\<close> block. An exception leaves it together with the state
  reached so far, since the counters and the result list are mutated in place.
\<close>

definition row_try_body ::
  "processor \<Rightarrow> world \<Rightarrow> int \<Rightarrow> row \<Rightarrow> run_state \<Rightarrow> (exn \<times> run_state) + run_state" where
  "row_try_body p w row_num r st =
     (case make_api_call p w row_num r of
        Inl e \<Rightarrow> Inl (e, st)
      | Inr (success, lg) \<Rightarrow>
          (let st1 = emit lg st;
               st2 = append_result
                       (make_result p w row_num r (if success then ''Success'' else ''Failed'')) st1;
               st3 = (if success
                      then emit [Info_row_processed row_num (get_wine_name r) (get_vintage r)]
                             (count_success st2)
                      else emit [Error_call_failed row_num (get_wine_name r) (get_vintage r)]
                             (count_failed st2))
           in if row_num < total_rows (stats st3)
              then py_sleep (rate_limit_delay p) st3
              else Inr st3))"

text \<open>The inner \<open>except Exception\<close> clause.\<close>

definition row_except :: "processor \<Rightarrow> world \<Rightarrow> int \<Rightarrow> row \<Rightarrow> exn \<Rightarrow> run_state \<Rightarrow> run_state" where
  "row_except p w row_num r e st =
     append_result (make_result p w row_num r ''Error'')
       (emit [Error_row row_num (str_exn e)] (count_failed st))"

definition process_row :: "processor \<Rightarrow> world \<Rightarrow> int \<Rightarrow> row \<Rightarrow> run_state \<Rightarrow> run_state" where
  "process_row p w row_num r st =
     (case row_try_body p w row_num r (count_total st) of
        Inr st' \<Rightarrow> st'
      | Inl (e, st') \<Rightarrow> row_except p w row_num r e st')"

text \<open>\<open>for row_num, row in enumerate(reader, start=2)\<close>.\<close>

fun process_rows :: "processor \<Rightarrow> world \<Rightarrow> int \<Rightarrow> row list \<Rightarrow> run_state \<Rightarrow> run_state" where
  "process_rows p w row_num [] st = st"
| "process_rows p w row_num (r # rs) st =
     process_rows p w (row_num + 1) rs (process_row p w row_num r st)"

subsection \<open>\<open>_write_results_csv\<close>\<close>

definition results_path :: "string \<Rightarrow> string" where
  "results_path csv_file_path = py_replace ''.csv'' ''_results.csv'' csv_file_path"

definition timestamped_path :: "string \<Rightarrow> string \<Rightarrow> string" where
  "timestamped_path timestamp csv_file_path =
     py_replace ''.csv'' (''_results_'' @ timestamp @ ''.csv'') csv_file_path"

text \<open>
  The part before the \<open>try\<close> block: the path to write to, or the exception \<open>input()\<close>
  raises.
\<close>

definition choose_output_path :: "world \<Rightarrow> string \<Rightarrow> exn + string" where
  "choose_output_path w csv_file_path =
     (let output_csv_path = results_path csv_file_path
      in if path_exists w output_csv_path
         then (case input_answer w of
                 Inl e \<Rightarrow> Inl e
               | Inr answer \<Rightarrow>
                   (let overwrite = py_lower (py_strip answer)
                    in if overwrite \<notin> set [''y'', ''yes'']
                       then Inr (timestamped_path (now_stamp w) csv_file_path)
                       else Inr output_csv_path))
         else Inr output_csv_path)"

definition out_fieldnames :: "processor \<Rightarrow> string list" where
  "out_fieldnames p =
     (if enable_mock_pricing p
      then [''Row'', ''Wine Name'', ''Vintage'', ''Status'', ''Mock Price'', ''Timestamp'']
      else [''Row'', ''Wine Name'', ''Vintage'', ''Status'', ''Timestamp''])"

text \<open>The csv writer prints \<open>None\<close> as the empty string.\<close>

fun csv_cell :: "cell \<Rightarrow> string" where
  "csv_cell (Str s) = s"
| "csv_cell NoneVal = []"

definition result_line :: "processor \<Rightarrow> result \<Rightarrow> string list" where
  "result_line p res =
     (if enable_mock_pricing p
      then [str_int (Row res), csv_cell (Wine_Name res), csv_cell (Vintage res), Status res,
            Mock_Price res, Timestamp res]
      else [str_int (Row res), csv_cell (Wine_Name res), csv_cell (Vintage res), Status res,
            Timestamp res])"

definition results_table :: "processor \<Rightarrow> result list \<Rightarrow> string list list" where
  "results_table p rs = out_fieldnames p # map (result_line p) rs"

definition write_results_csv ::
  "processor \<Rightarrow> world \<Rightarrow> result list \<Rightarrow> string \<Rightarrow> run_state \<Rightarrow> (exn \<times> run_state) + run_state" where
  "write_results_csv p w rs csv_file_path st =
     (case choose_output_path w csv_file_path of
        Inl e \<Rightarrow> Inl (e, st)
      | Inr output_csv_path \<Rightarrow>
          (case write_csv w output_csv_path (results_table p rs) of
             None \<Rightarrow>
               Inr (emit [Info_written output_csv_path]
                      (st\<lparr>files := files st @ [(output_csv_path, results_table p rs)]\<rparr>))
           | Some e \<Rightarrow> Inr (emit [Error_writing (str_exn e)] st)))"

subsection \<open>\<open>process_csv\<close>\<close>

definition init_state :: run_state where
  "init_state =
     \<lparr>stats = \<lparr>total_rows = 0, successful_calls = 0, failed_calls = 0, skipped_rows = 0\<rparr>,
      results = [], sleeps = [], logged = [], files = []\<rparr>"

text \<open>The two outer \<open>except\<close> clauses log and raise again.\<close>

fun read_error_event :: "string \<Rightarrow> exn \<Rightarrow> log_event" where
  "read_error_event csv_file_path (FileNotFoundError m) = Error_file_not_found csv_file_path"
| "read_error_event csv_file_path e = Error_reading (str_exn e)"

text \<open>The state when the loop is left: the header is logged, then the rows are handled.\<close>

definition after_rows :: "processor \<Rightarrow> world \<Rightarrow> string list \<Rightarrow> row list \<Rightarrow> run_state" where
  "after_rows p w fns rs =
     process_rows p w 2 rs (emit [Info_column_count (length fns), Info_columns fns] init_state)"

text \<open>
  The value is what \<open>process_csv\<close> returns or raises, with the effects of the run.
  An empty input has no header, and \<open>len(reader.fieldnames)\<close> raises TypeError.
\<close>

definition process_csv :: "processor \<Rightarrow> world \<Rightarrow> string \<Rightarrow> (exn + stats_rec) \<times> run_state" where
  "process_csv p w csv_file_path =
     (case open_csv w csv_file_path of
        Inl e \<Rightarrow> (Inl e, emit [read_error_event csv_file_path e] init_state)
      | Inr tbl \<Rightarrow>
          (case fieldnames tbl of
             None \<Rightarrow>
               (let e = TypeError ''object of type NoneType has no len()''
                in (Inl e, emit [read_error_event csv_file_path e] init_state))
           | Some fns \<Rightarrow>
               (let st = after_rows p w fns (rows tbl)
                in case write_results_csv p w (results st) csv_file_path st of
                     Inl (e, st') \<Rightarrow> (Inl e, st')
                   | Inr st' \<Rightarrow> (Inr (stats st'), st'))))"

subsection \<open>What a run records for a row\<close>

text \<open>
  Two abbreviations for the statements below: whether the call for a row reports
  success, and the result recorded for a row whose handling raises nothing after the
  call.
\<close>

definition call_succeeds :: "processor \<Rightarrow> world \<Rightarrow> int \<Rightarrow> row \<Rightarrow> bool" where
  "call_succeeds p w row_num r =
     (case make_api_call p w row_num r of Inr (ok, lg) \<Rightarrow> ok | Inl e \<Rightarrow> False)"

definition row_result :: "processor \<Rightarrow> world \<Rightarrow> int \<Rightarrow> row \<Rightarrow> result" where
  "row_result p w row_num r =
     make_result p w row_num r (if call_succeeds p w row_num r then ''Success'' else ''Failed'')"

subsection \<open>A concrete run\<close>

text \<open>
  Two rows; the service answers 200 to the first request and the second request
  times out. The only files that exist are the inputs \<open>wines.csv\<close> and \<open>wines.txt\<close>,
  and the operator answers the overwrite question with \<open>N\<close>.
\<close>

definition wine_row_1 :: row where
  "wine_row_1 = [''Wine Name'' \<mapsto> Str ''Pinot Noir'', ''Vintage'' \<mapsto> Str ''2015'']"

definition wine_row_2 :: row where
  "wine_row_2 = [''Wine Name'' \<mapsto> Str ''Merlot'', ''Vintage'' \<mapsto> Str ''bad'']"

definition wine_table :: csv_table where
  "wine_table = \<lparr>fieldnames = Some [''Wine Name'', ''Vintage''], rows = [wine_row_1, wine_row_2]\<rparr>"

definition wine_world :: world where
  "wine_world =
     \<lparr>open_csv = (\<lambda>path. if path = ''wines.csv'' \<or> path = ''wines.txt'' then Inr wine_table
                          else Inl (FileNotFoundError path)),
      session_get = (\<lambda>row_num url ps.
                       if row_num = 2 then Inr \<lparr>status_code = 200, text_body = ''ok''\<rparr>
                       else Inl (RequestException ''timed out'')),
      random_value = (\<lambda>row_num sent. 1 / 2),
      strftime = (\<lambda>row_num. ''2024-05-01 12:00:00''),
      path_exists = (\<lambda>path. path = ''wines.csv'' \<or> path = ''wines.txt''),
      input_answer = Inr '' N '',
      now_stamp = ''20240501_120000'',
      write_csv = (\<lambda>path table. None)\<rparr>"


definition wine_processor :: processor where
  "wine_processor = init_processor ''test_api_key_123'' ''https://postman-echo.com/get/'' 1 False"


section \<open>Properties\<close>

subsection \<open>The API call never raises\<close>

lemma api_call_handlers_returns: "\<exists>lg. api_call_handlers e = Inr (False, lg)"
  by (cases e) simp_all

lemma make_api_call_returns: "\<exists>ok lg. make_api_call p w k r = Inr (ok, lg)"
proof (cases "api_call_body p w k r")
  case (Inl e)
  then show ?thesis
    using api_call_handlers_returns [of e] by (auto simp: make_api_call_def)
next
  case (Inr res)
  then show ?thesis
    by (cases res) (simp add: make_api_call_def)
qed

lemma make_api_call_ok_iff:
  assumes "make_api_call p w k r = Inr (ok, lg)"
  shows "ok \<longleftrightarrow> (\<exists>ps resp. build_params p w k r = Inr ps \<and>
                 session_get w k (base_url p) ps = Inr resp \<and> status_code resp = 200)"
proof (cases "api_call_body p w k r")
  case (Inl e)
  moreover from Inl have "\<not> (\<exists>ps resp. build_params p w k r = Inr ps \<and>
                 session_get w k (base_url p) ps = Inr resp \<and> status_code resp = 200)"
    by (auto simp: api_call_body_def split: sum.splits if_splits)
  ultimately show ?thesis
    using assms api_call_handlers_returns [of e] by (auto simp: make_api_call_def)
next
  case (Inr res)
  then show ?thesis
    using assms by (auto simp: make_api_call_def api_call_body_def split: sum.splits if_splits)
qed

text \<open>
  Claim C4. \<open>_make_api_call\<close> always returns and never raises. It returns true exactly
  when the request could be built, the GET returned a response, and the status code
  of the response is 200; hence every other status code, every request error of the
  transport and every other exception make it return false.
\<close>

theorem make_api_call_success_iff_200:
  "\<exists>ok lg. make_api_call p w k r = Inr (ok, lg) \<and>
     (ok \<longleftrightarrow> (\<exists>ps resp. build_params p w k r = Inr ps \<and>
                 session_get w k (base_url p) ps = Inr resp \<and> status_code resp = 200))"
proof -
  obtain ok lg where c: "make_api_call p w k r = Inr (ok, lg)"
    using make_api_call_returns by blast
  with make_api_call_ok_iff [OF c] show ?thesis by blast
qed

subsection \<open>One row\<close>

text \<open>
  Inside the loop the row number is always larger than the running count of rows.
  Under this condition the comparison that guards \<open>time.sleep\<close> is false, nothing
  raises in the \<open>try\<close> block, and the row is handled as follows.
\<close>

lemma process_row_eq:
  assumes "total_rows (stats st) < k"
  shows "process_row p w k r st =
     (let lg = snd (projr (make_api_call p w k r));
          st2 = append_result (row_result p w k r) (emit lg (count_total st))
      in if call_succeeds p w k r
         then emit [Info_row_processed k (get_wine_name r) (get_vintage r)] (count_success st2)
         else emit [Error_call_failed k (get_wine_name r) (get_vintage r)] (count_failed st2))"
proof -
  obtain ok lg where c: "make_api_call p w k r = Inr (ok, lg)"
    using make_api_call_returns by blast
  then show ?thesis
    using assms
    by (simp add: process_row_def row_try_body_def row_result_def call_succeeds_def Let_def
        emit_def count_total_def count_success_def count_failed_def append_result_def)
qed

lemmas state_updates =
  Let_def emit_def count_total_def count_success_def count_failed_def append_result_def

lemma process_row_results:
  "total_rows (stats st) < k \<Longrightarrow>
   results (process_row p w k r st) = results st @ [row_result p w k r]"
  by (simp add: process_row_eq state_updates)

lemma process_row_sleeps:
  "total_rows (stats st) < k \<Longrightarrow> sleeps (process_row p w k r st) = sleeps st"
  by (simp add: process_row_eq state_updates)


lemma process_row_total:
  "total_rows (stats st) < k \<Longrightarrow>
   total_rows (stats (process_row p w k r st)) = total_rows (stats st) + 1"
  by (simp add: process_row_eq state_updates)

text \<open>No branch of the row handling, the \<open>except\<close> clause included, touches the fourth counter.\<close>

lemma process_row_skipped:
  "skipped_rows (stats (process_row p w k r st)) = skipped_rows (stats st)"
  by (auto simp: process_row_def row_try_body_def row_except_def py_sleep_def state_updates
      split: sum.splits prod.splits if_splits)

subsection \<open>The loop\<close>

lemma process_rows_skipped:
  "skipped_rows (stats (process_rows p w k rs st)) = skipped_rows (stats st)"
  by (induction rs arbitrary: k st) (simp_all add: process_row_skipped)

lemma process_rows_sleeps:
  "total_rows (stats st) < k \<Longrightarrow> sleeps (process_rows p w k rs st) = sleeps st"
  by (induction rs arbitrary: k st) (simp_all add: process_row_sleeps process_row_total)


lemma process_rows_results:
  "total_rows (stats st) < k \<Longrightarrow>
   results (process_rows p w k rs st) =
     results st @ map (\<lambda>i. row_result p w (k + int i) (rs ! i)) [0..<length rs]"
proof (induction rs arbitrary: k st)
  case Nil
  then show ?case by simp
next
  case (Cons r rs)
  have "total_rows (stats (process_row p w k r st)) < k + 1"
    using Cons.prems by (simp add: process_row_total)
  from Cons.IH [OF this] show ?case
    using Cons.prems
    by (simp add: process_row_results map_upt_Suc add.assoc del: upt_Suc)
qed

lemma after_rows_skipped: "skipped_rows (stats (after_rows p w fns rs)) = 0"
  by (simp add: after_rows_def process_rows_skipped init_state_def emit_def)


lemma after_rows_sleeps: "sleeps (after_rows p w fns rs) = []"
  by (simp add: after_rows_def process_rows_sleeps init_state_def emit_def)

lemma process_csv_results:
  assumes "open_csv w path = Inr tbl" and "fieldnames tbl = Some fns"
  shows "results (snd (process_csv p w path)) =
           map (\<lambda>i. row_result p w (2 + int i) (rows tbl ! i)) [0..<length (rows tbl)]"
proof -
  have "results (after_rows p w fns (rows tbl)) =
           map (\<lambda>i. row_result p w (2 + int i) (rows tbl ! i)) [0..<length (rows tbl)]"
    by (simp add: after_rows_def process_rows_results init_state_def emit_def)
  then show ?thesis
    using assms
    by (auto simp: process_csv_def write_results_csv_def Let_def emit_def
        split: sum.splits option.splits)
qed

text \<open>In every run, whatever the input and the configured delay, \<open>time.sleep\<close> is not called.\<close>

lemma process_csv_never_sleeps: "sleeps (snd (process_csv p w path)) = []"
  using after_rows_sleeps [of p w]
  by (auto simp: process_csv_def write_results_csv_def Let_def emit_def init_state_def
      split: sum.splits option.splits)

subsection \<open>Status of a row\<close>

text \<open>
  Claim C1, as the code has it. For every row of a table that could be read, the status
  recorded for the row is \<open>Failed\<close> when building the request raises, \<open>Failed\<close> when
  sending it raises, \<open>Success\<close> when a response with status code 200 comes back and
  \<open>Failed\<close> for a response with any other status code. An exception during mapping
  or sending is caught inside \<open>_make_api_call\<close>, so it never yields \<open>Error\<close>.
\<close>

theorem row_status_classification:
  assumes "open_csv w path = Inr tbl" and "fieldnames tbl = Some fns"
    and "i < length (rows tbl)"
  shows "let r = rows tbl ! i; k = int i + 2;
             s = Status (results (snd (process_csv p w path)) ! i)
         in (\<forall>e. build_params p w k r = Inl e \<longrightarrow> s = ''Failed'') \<and>
            (\<forall>ps e. build_params p w k r = Inr ps \<and> session_get w k (base_url p) ps = Inl e
                \<longrightarrow> s = ''Failed'') \<and>
            (\<forall>ps resp. build_params p w k r = Inr ps \<and> session_get w k (base_url p) ps = Inr resp
                \<longrightarrow> s = (if status_code resp = 200 then ''Success'' else ''Failed''))"
proof -
  define r where "r = rows tbl ! i"
  define k where "k = int i + 2"
  obtain ok lg where c: "make_api_call p w k r = Inr (ok, lg)"
    using make_api_call_returns by blast
  have s: "Status (results (snd (process_csv p w path)) ! i) = (if ok then ''Success'' else ''Failed'')"
    using assms c
    by (simp add: process_csv_results row_result_def make_result_def call_succeeds_def
        r_def k_def add.commute)
  have iff: "ok \<longleftrightarrow> (\<exists>ps resp. build_params p w k r = Inr ps \<and>
                 session_get w k (base_url p) ps = Inr resp \<and> status_code resp = 200)"
    using c by (rule make_api_call_ok_iff)
  show ?thesis
    unfolding Let_def r_def [symmetric] k_def [symmetric] s
    using iff by auto
qed

text \<open>The second row of the concrete run: the request is built, sending it times out.\<close>

theorem row_status_classification_witness:
  "open_csv wine_world ''wines.csv'' = Inr wine_table \<and>
   fieldnames wine_table = Some [''Wine Name'', ''Vintage''] \<and>
   1 < length (rows wine_table) \<and>
   (\<exists>ps. build_params wine_processor wine_world 3 wine_row_2 = Inr ps \<and>
      session_get wine_world 3 (base_url wine_processor) ps = Inl (RequestException ''timed out'')) \<and>
   Status (results (snd (process_csv wine_processor wine_world ''wines.csv'')) ! 1) = ''Failed''"
proof -
  have a: "open_csv wine_world ''wines.csv'' = Inr wine_table"
    by (simp add: wine_world_def)
  have b: "fieldnames wine_table = Some [''Wine Name'', ''Vintage'']"
    by (simp add: wine_table_def)
  have c: "1 < length (rows wine_table)"
    by (simp add: wine_table_def)
  have r: "rows wine_table ! 1 = wine_row_2"
    by (simp add: wine_table_def)
  obtain ps where ps: "build_params wine_processor wine_world 3 wine_row_2 = Inr ps"
    by (simp add: build_params_def quote_plus_def wine_row_2_def field_mapping_def
        get_default_def bom_wine_name_def Let_def)
  have d: "session_get wine_world 3 (base_url wine_processor) ps = Inl (RequestException ''timed out'')"
    by (simp add: wine_world_def)
  from row_status_classification [OF a b c, of wine_processor] ps d r
  show ?thesis using a b c by (auto simp: Let_def)
qed

text \<open>
  The claim as written fails on that row: an exception is raised while the request is
  sent, and the status recorded for row 3 is not \<open>Error\<close>.
\<close>

theorem request_error_recorded_as_failed_counterexample:
  "api_call_body wine_processor wine_world 3 wine_row_2 = Inl (RequestException ''timed out'') \<and>
   Row (results (snd (process_csv wine_processor wine_world ''wines.csv'')) ! 1) = 3 \<and>
   Status (results (snd (process_csv wine_processor wine_world ''wines.csv'')) ! 1) \<noteq> ''Error''"
  by code_simp

subsection \<open>Rate limiting\<close>

text \<open>
  Claim C2 says that the delay is taken once after each row but the last. The code
  compares the row number, which starts at 2, with the count of rows read so far,
  which is always smaller, so the delay is never taken: in the concrete run with two
  rows, which returns its statistics, \<open>time.sleep\<close> is called not once but never.
\<close>

theorem no_delay_between_two_rows:
  "length (rows wine_table) = 2 \<and>
   fst (process_csv wine_processor wine_world ''wines.csv'') =
     Inr \<lparr>total_rows = 2, successful_calls = 1, failed_calls = 1, skipped_rows = 0\<rparr> \<and>
   sleeps (snd (process_csv wine_processor wine_world ''wines.csv'')) = []"
  by code_simp

subsection \<open>One result per row\<close>

text \<open>
  Claim C3. For a table with N data rows, the run records exactly N results, and the
  result at position \<open>i\<close> (counted from 0) carries the row number \<open>i + 2\<close>, that is its
  position counted from 1 plus one for the header.
\<close>

theorem results_one_per_row:
  assumes "open_csv w path = Inr tbl" and "fieldnames tbl = Some fns"
  shows "length (results (snd (process_csv p w path))) = length (rows tbl) \<and>
         (\<forall>i<length (rows tbl). Row (results (snd (process_csv p w path)) ! i) = int i + 2)"
  using assms by (simp add: process_csv_results row_result_def make_result_def)

theorem results_one_per_row_witness:
  "open_csv wine_world ''wines.csv'' = Inr wine_table \<and>
   fieldnames wine_table = Some [''Wine Name'', ''Vintage''] \<and>
   length (results (snd (process_csv wine_processor wine_world ''wines.csv''))) = 2 \<and>
   Row (results (snd (process_csv wine_processor wine_world ''wines.csv'')) ! 0) = 2 \<and>
   Row (results (snd (process_csv wine_processor wine_world ''wines.csv'')) ! 1) = 3"
proof -
  have a: "open_csv wine_world ''wines.csv'' = Inr wine_table"
    by (simp add: wine_world_def)
  have b: "fieldnames wine_table = Some [''Wine Name'', ''Vintage'']"
    by (simp add: wine_table_def)
  have c: "length (rows wine_table) = 2"
    by (simp add: wine_table_def)
  from results_one_per_row [OF a b, of wine_processor] show ?thesis
    using a b c by simp
qed

subsection \<open>Mock prices\<close>






text \<open>
  Claim C6. With mock pricing disabled, the price generator returns \<open>N/A\<close> for every
  vintage, whether it is a number, another text or missing.
\<close>

theorem mock_price_disabled:
  "\<not> enable_mock_pricing p \<Longrightarrow> generate_mock_price p u vintage = ''N/A''"
  by (simp add: generate_mock_price_def)

theorem mock_price_disabled_witness:
  "\<not> enable_mock_pricing wine_processor \<and>
   generate_mock_price wine_processor (1 / 2) (Str ''2015'') = ''N/A'' \<and>
   generate_mock_price wine_processor (1 / 2) (Str ''bad'') = ''N/A'' \<and>
   generate_mock_price wine_processor (1 / 2) NoneVal = ''N/A''"
proof -
  have off: "\<not> enable_mock_pricing wine_processor"
    by (simp add: wine_processor_def init_processor_def)
  from mock_price_disabled [OF off] show ?thesis
    using off by simp
qed

subsection \<open>Statistics\<close>

text \<open>
  Claim C7. In every run the counter of skipped rows is 0, in the statistics the run
  ends with and in the statistics \<open>process_csv\<close> returns.
\<close>

theorem skipped_rows_always_zero:
  "skipped_rows (stats (snd (process_csv p w path))) = 0 \<and>
   (\<forall>s. fst (process_csv p w path) = Inr s \<longrightarrow> skipped_rows s = 0)"
  using after_rows_skipped [of p w]
  by (auto simp: process_csv_def write_results_csv_def Let_def emit_def init_state_def
      split: sum.splits option.splits)

theorem skipped_rows_always_zero_witness:
  "fst (process_csv wine_processor wine_world ''wines.csv'') =
     Inr \<lparr>total_rows = 2, successful_calls = 1, failed_calls = 1, skipped_rows = 0\<rparr> \<and>
   skipped_rows (stats (snd (process_csv wine_processor wine_world ''wines.csv''))) = 0"
proof -
  have "fst (process_csv wine_processor wine_world ''wines.csv'') =
     Inr \<lparr>total_rows = 2, successful_calls = 1, failed_calls = 1, skipped_rows = 0\<rparr>"
    by code_simp
  with skipped_rows_always_zero [of wine_processor wine_world "''wines.csv''"]
  show ?thesis by simp
qed

subsection \<open>Writing the results\<close>



subsection \<open>The path of the results file\<close>

lemma py_replace_absent:
  "old \<noteq> [] \<Longrightarrow> \<not> sublist old s \<Longrightarrow> py_replace old new s = s"
  by (induction s) (simp_all add: sublist_Cons_right)

text \<open>
  No proper end of \<open>.csv\<close> is a beginning of it, so an occurrence that starts inside
  \<open>a\<close> cannot reach into a \<open>.csv\<close> that follows \<open>a\<close>.
\<close>

lemma csv_no_border:
  assumes "prefix ''.csv'' (a @ ''.csv'' @ b)" and "a \<noteq> []"
  shows "prefix ''.csv'' a"
proof -
  have "0 < length a" using assms(2) by simp
  then consider "length a = 1" | "length a = 2" | "length a = 3" | "4 \<le> length a"
    by linarith
  then show ?thesis
  proof cases
    case 1
    then obtain x where "a = [x]" by (cases a) auto
    with assms show ?thesis by auto
  next
    case 2
    then obtain x y where "a = [x, y]"
      by (cases a; cases "tl a") auto
    with assms show ?thesis by auto
  next
    case 3
    then obtain x y z where "a = [x, y, z]"
      by (cases a; cases "tl a"; cases "tl (tl a)") auto
    with assms show ?thesis by auto
  next
    case 4
    then obtain x y z u a' where "a = x # y # z # u # a'"
      by (cases a; cases "tl a"; cases "tl (tl a)"; cases "tl (tl (tl a))") auto
    with assms show ?thesis by auto
  qed
qed

lemma py_replace_csv_append:
  "py_replace ''.csv'' new (a @ ''.csv'' @ b) =
     py_replace ''.csv'' new a @ new @ py_replace ''.csv'' new b"
proof (induction a rule: length_induct)
  case (1 a)
  show ?case
  proof (cases a)
    case Nil
    then show ?thesis by simp
  next
    case (Cons c a')
    show ?thesis
    proof (cases "prefix ''.csv'' a")
      case True
      then obtain a'' where a: "a = ''.csv'' @ a''"
        by (auto simp: prefix_def)
      then have "length a'' < length a" by simp
      with 1 have "py_replace ''.csv'' new (a'' @ ''.csv'' @ b) =
          py_replace ''.csv'' new a'' @ new @ py_replace ''.csv'' new b"
        by blast
      then show ?thesis
        by (simp add: a)
    next
      case False
      with csv_no_border [of a b] Cons
      have np: "\<not> prefix ''.csv'' (c # a' @ ''.csv'' @ b)" by auto
      have "length a' < length a" using Cons by simp
      with 1 have ih: "py_replace ''.csv'' new (a' @ ''.csv'' @ b) =
          py_replace ''.csv'' new a' @ new @ py_replace ''.csv'' new b"
        by blast
      have l: "py_replace ''.csv'' new ((c # a') @ ''.csv'' @ b) =
          c # py_replace ''.csv'' new (a' @ ''.csv'' @ b)"
        using np by (simp del: Cons_prefix_Cons)
      have r: "py_replace ''.csv'' new (c # a') = c # py_replace ''.csv'' new a'"
        using False Cons by (simp del: Cons_prefix_Cons)
      show ?thesis
        unfolding Cons l r ih by simp
    qed
  qed
qed

lemma py_replace_length_mono:
  "length new1 \<le> length new2 \<Longrightarrow>
   length (py_replace old new1 s) \<le> length (py_replace old new2 s)"
  by (induction old new1 s rule: py_replace.induct) (auto simp del: Cons_prefix_Cons)

lemma py_replace_length_less:
  "old \<noteq> [] \<Longrightarrow> sublist old s \<Longrightarrow> length new1 < length new2 \<Longrightarrow>
   length (py_replace old new1 s) < length (py_replace old new2 s)"
proof (induction old new1 s rule: py_replace.induct)
  case (1 old new)
  then show ?case by simp
next
  case (2 old new c s)
  show ?case
  proof (cases "prefix old (c # s)")
    case True
    have "length (py_replace old new (drop (length old) (c # s)))
        \<le> length (py_replace old new2 (drop (length old) (c # s)))"
      using "2.prems"(3) by (intro py_replace_length_mono) simp
    with True "2.prems" show ?thesis by (simp del: Cons_prefix_Cons)
  next
    case False
    with "2.prems" have "sublist old s" by (simp add: sublist_Cons_right)
    with False "2.prems" "2.IH"(3) show ?thesis by (simp del: Cons_prefix_Cons)
  qed
qed

text \<open>
  For an input path that contains \<open>.csv\<close> the path with the time stamp is longer than
  the plain results path, hence another path.
\<close>

lemma timestamped_path_distinct:
  "sublist ''.csv'' path \<Longrightarrow> timestamped_path t path \<noteq> results_path path"
  using py_replace_length_less [of "''.csv''" path "''_results.csv''" "''_results_'' @ t @ ''.csv''"]
  by (auto simp: timestamped_path_def results_path_def)

text \<open>
  Claim C9 says that an operator who declines to overwrite gets the results in another
  file, named with a time stamp. For the input \<open>wines.txt\<close> the code does not do so:
  the results path is the input path, which exists; the operator answers \<open>N\<close>; the
  path with the time stamp is again the input path, and the results are written over
  the input file.
\<close>

theorem declined_overwrite_reuses_path_without_csv:
  "path_exists wine_world (results_path ''wines.txt'') \<and>
   input_answer wine_world = Inr '' N '' \<and>
   py_lower (py_strip '' N '') \<notin> set [''y'', ''yes''] \<and>
   timestamped_path (now_stamp wine_world) ''wines.txt'' = results_path ''wines.txt'' \<and>
   choose_output_path wine_world ''wines.txt'' = Inr ''wines.txt'' \<and>
   map fst (files (snd (process_csv wine_processor wine_world ''wines.txt''))) = [''wines.txt'']"
  by code_simp

text \<open>
  Claim C10. The results path of an input path without \<open>.csv\<close> is the input path
  itself, and then the writer, whatever the operator answers, targets the input file;
  and the substitution acts on every occurrence: around any occurrence of \<open>.csv\<close> the
  results path is the results path of what precedes it, the new suffix, and the
  results path of what follows it.
\<close>

theorem results_path_substitutes_every_csv:
  "(\<not> sublist ''.csv'' path \<longrightarrow> results_path path = path) \<and>
   (\<not> sublist ''.csv'' path \<and> choose_output_path w path = Inr out \<longrightarrow> out = path) \<and>
   results_path (a @ ''.csv'' @ b) = results_path a @ ''_results.csv'' @ results_path b"
proof (intro conjI impI)
  assume "\<not> sublist ''.csv'' path"
  then show "results_path path = path"
    by (simp add: results_path_def py_replace_absent)
next
  assume h: "\<not> sublist ''.csv'' path \<and> choose_output_path w path = Inr out"
  then have "results_path path = path" "timestamped_path (now_stamp w) path = path"
    by (simp_all add: results_path_def timestamped_path_def py_replace_absent)
  with h show "out = path"
    by (auto simp: choose_output_path_def Let_def split: if_splits sum.splits)
next
  show "results_path (a @ ''.csv'' @ b) = results_path a @ ''_results.csv'' @ results_path b"
    unfolding results_path_def by (rule py_replace_csv_append)
qed

theorem results_path_substitutes_every_csv_witness:
  "\<not> sublist ''.csv'' ''wines.txt'' \<and>
   results_path ''wines.txt'' = ''wines.txt'' \<and>
   choose_output_path wine_world ''wines.txt'' = Inr ''wines.txt'' \<and>
   results_path ''old.csv/wines.csv'' = ''old_results.csv/wines_results.csv''"
proof -
  have n: "\<not> sublist ''.csv'' ''wines.txt''"
    by (simp add: sublist_Cons_right)
  have c: "choose_output_path wine_world ''wines.txt'' = Inr ''wines.txt''"
    by code_simp
  have r1: "results_path ''old'' = ''old''" and r2: "results_path ''/wines.csv'' = ''/wines_results.csv''"
    by (simp_all add: results_path_def)
  from results_path_substitutes_every_csv [of "''wines.txt''" wine_world "''wines.txt''" "''old''" "''/wines.csv''"]
  show ?thesis
    using n c r1 r2 by simp
qed

end
